theory Spec2Isabelle
  imports Complex_Main "HOL-Library.List_Lexorder" "HOL-Library.Char_ord"
begin

section \<open>The portfolio backend: data model\<close>

text \<open>
  The service of \<^verbatim>\<open>backend/main.py\<close> is a set of request handlers around three
  outside parties: the process environment, a PostgreSQL server reached through asyncpg
  and an S3 bucket reached through boto3. The handlers are embedded as functions of the
  process state (what the module holds after import) and of a record \<open>world\<close> that
  holds everything outside the process; a handler returns its result and the world
  after the call. Python strings are lists of characters, a string outside ASCII being
  its UTF-8 bytes.
\<close>

subsection \<open>Values, exceptions and handler results\<close>

text \<open>
  The values a handler puts in a response. A dict literal is an association list in the
  order of the source. A datetime is carried as its ISO rendering.
\<close>

datatype pyval =
    PNone
  | PStr string
  | PInt int
  | PFloat real
  | PDatetime string
  | PList "pyval list"
  | PDict "(string \<times> pyval) list"

text \<open>
  An exception carries what \<^verbatim>\<open>str(e)\<close> gives. \<open>upload_file\<close> tells botocore's
  \<^verbatim>\<open>ClientError\<close> from every other \<^verbatim>\<open>Exception\<close>; no other handler looks at the class.
\<close>

datatype exn = ClientError string | Exception string

fun str_exn :: "exn \<Rightarrow> string" where
  "str_exn (ClientError m) = m"
| "str_exn (Exception m) = m"

text \<open>
  What a handler hands to the framework: a plain value (\<^verbatim>\<open>return {...}\<close>), an explicit
  \<^verbatim>\<open>JSONResponse(content, status_code)\<close>, or a raised \<^verbatim>\<open>HTTPException(status_code, detail)\<close>.
\<close>

datatype result =
    Returned pyval
  | JSONResponse pyval nat
  | HTTPException nat string

record http_response =
  status_code :: nat
  json_body :: pyval

text \<open>
  The framework's side of a route declared with \<^verbatim>\<open>@app.get\<close> or \<^verbatim>\<open>@app.post\<close> and no
  \<^verbatim>\<open>status_code\<close>: a returned value is sent with status 200, a \<^verbatim>\<open>JSONResponse\<close> as it
  is, an \<^verbatim>\<open>HTTPException\<close> with its status and the body \<^verbatim>\<open>{"detail": ...}\<close>.
\<close>

fun serve :: "result \<Rightarrow> http_response" where
  "serve (Returned v) = \<lparr>status_code = 200, json_body = v\<rparr>"
| "serve (JSONResponse v s) = \<lparr>status_code = s, json_body = v\<rparr>"
| "serve (HTTPException s d) = \<lparr>status_code = s, json_body = PDict [(''detail'', PStr d)]\<rparr>"

text \<open>\<^verbatim>\<open>os.getenv\<close> gives \<^verbatim>\<open>None\<close> for an unset variable; in a response that is \<^verbatim>\<open>null\<close>.\<close>

fun py_opt_str :: "string option \<Rightarrow> pyval" where
  "py_opt_str None = PNone"
| "py_opt_str (Some s) = PStr s"

fun py_opt_int :: "int option \<Rightarrow> pyval" where
  "py_opt_int None = PNone"
| "py_opt_int (Some n) = PInt n"

text \<open>An f-string field \<^verbatim>\<open>{x}\<close> of a value that is a string or \<^verbatim>\<open>None\<close>.\<close>

fun fmt_opt_str :: "string option \<Rightarrow> string" where
  "fmt_opt_str None = ''None''"
| "fmt_opt_str (Some s) = s"

subsection \<open>\<^verbatim>\<open>str.split\<close> with a one-character separator\<close>

text \<open>
  \<^verbatim>\<open>s.split(".")\<close> cuts at every separator and keeps empty pieces, so the result is
  never empty: \<^verbatim>\<open>"".split(".") == [""]\<close>, \<^verbatim>\<open>"a.".split(".") == ["a", ""]\<close>.
\<close>

fun py_split :: "char \<Rightarrow> string \<Rightarrow> string list" where
  "py_split c [] = [[]]"
| "py_split c (x # xs) =
     (if x = c then [] # py_split c xs
      else (case py_split c xs of
              [] \<Rightarrow> [[x]]
            | w # ws \<Rightarrow> (x # w) # ws))"

subsection \<open>The process state\<close>

text \<open>The arguments of \<^verbatim>\<open>boto3.client('s3', ...)\<close>.\<close>

record s3_client =
  aws_access_key_id :: "string option"
  aws_secret_access_key :: "string option"
  region_name :: "string option"

text \<open>
  What the module holds once imported: \<^verbatim>\<open>os.environ\<close>, which \<^verbatim>\<open>os.getenv\<close> reads at
  the moment of each call, and the two globals \<^verbatim>\<open>s3_client\<close> and \<^verbatim>\<open>S3_BUCKET_NAME\<close>
  computed at lines 23 to 29.
\<close>

record process =
  environ :: "string \<rightharpoonup> string"
  s3_client :: s3_client
  S3_BUCKET_NAME :: "string option"

definition getenv :: "process \<Rightarrow> string \<Rightarrow> string option" where
  "getenv p name = environ p name"

text \<open>
  \<^verbatim>\<open>load_dotenv()\<close> adds the variables of the \<^verbatim>\<open>.env\<close> file that the environment does
  not set already.
\<close>

definition load_dotenv :: "(string \<rightharpoonup> string) \<Rightarrow> (string \<rightharpoonup> string) \<Rightarrow> (string \<rightharpoonup> string)" where
  "load_dotenv dotenv env = dotenv ++ env"

definition startup :: "(string \<rightharpoonup> string) \<Rightarrow> (string \<rightharpoonup> string) \<Rightarrow> process" where
  "startup dotenv env =
     (let e = load_dotenv dotenv env in
      \<lparr>environ = e,
       s3_client = \<lparr>aws_access_key_id = e ''AWS_ACCESS_KEY_ID'',
                    aws_secret_access_key = e ''AWS_SECRET_ACCESS_KEY'',
                    region_name = e ''AWS_REGION''\<rparr>,
       S3_BUCKET_NAME = e ''S3_BUCKET_NAME''\<rparr>)"

text \<open>A later assignment to \<^verbatim>\<open>os.environ\<close>, by any code of the process.\<close>

definition setenv :: "string \<Rightarrow> string \<Rightarrow> process \<Rightarrow> process" where
  "setenv name v p = p\<lparr>environ := (environ p)(name \<mapsto> v)\<rparr>"

subsection \<open>The world outside the process\<close>

text \<open>The keyword arguments of \<^verbatim>\<open>asyncpg.connect\<close>, the SSL context apart.\<close>

record conn_params =
  cp_user :: "string option"
  cp_password :: "string option"
  cp_database :: "string option"
  cp_host :: "string option"
  cp_port :: int

text \<open>The calls made to the database driver, in order.\<close>

datatype db_call = Connect conn_params | Fetchrow string | Close

record s3_object =
  obj_body :: string
  obj_content_type :: "string option"

datatype s3_op = PutObject | ListObjectsV2

text \<open>The arguments of \<^verbatim>\<open>generate_presigned_url\<close>, with the client that signs.\<close>

record presign_request =
  pr_client :: s3_client
  pr_method :: string
  pr_bucket :: "string option"
  pr_key :: string
  pr_expires_in :: nat

text \<open>
  Everything outside the process, as one record.
  \<^item> \<open>rand_uuid\<close> is the sequence of strings that \<^verbatim>\<open>str(uuid.uuid4())\<close> yields and
    \<open>rand_pos\<close> the number drawn so far;
  \<^item> \<open>loop_time\<close> is the clock of the event loop;
  \<^item> \<open>int_of_str\<close> is Python's \<^verbatim>\<open>int\<close> on a string, \<open>None\<close> where it raises
    \<^verbatim>\<open>ValueError\<close>;
  \<^item> \<open>db_connect_raises\<close>, \<open>db_fetchrow_result\<close> and \<open>db_close_raises\<close> say how the
    server answers; \<open>db_calls\<close> records the calls made;
  \<^item> \<open>buckets\<close> maps a bucket name to its objects, in the order in which the store
    lists them, which is the byte order of the keys; \<open>max_keys\<close> is the number of keys one listing call returns at most
    (1000 for S3); \<open>s3_fault\<close> is the error, if any, with which the store or the
    network answers an operation;
  \<^item> \<open>sign_url\<close> is the SDK's signer, a computation on the client's credentials and
    the request that never contacts the store.
\<close>

record world =
  rand_uuid :: "nat \<Rightarrow> string"
  rand_pos :: nat
  loop_time :: real
  int_of_str :: "string \<Rightarrow> int option"
  db_connect_raises :: "conn_params \<Rightarrow> exn option"
  db_fetchrow_result :: "string \<Rightarrow> exn + (string \<times> pyval) list option"
  db_close_raises :: "exn option"
  db_calls :: "db_call list"
  s3_fault :: "s3_op \<Rightarrow> exn option"
  buckets :: "string \<rightharpoonup> (string \<times> s3_object) list"
  max_keys :: nat
  sign_url :: "presign_request \<Rightarrow> exn + string"

text \<open>\<^verbatim>\<open>uuid.uuid4()\<close>, formatted: the next string of the sequence.\<close>

definition uuid4 :: "world \<Rightarrow> string \<times> world" where
  "uuid4 w = (rand_uuid w (rand_pos w), w\<lparr>rand_pos := Suc (rand_pos w)\<rparr>)"

subsection \<open>The object store\<close>

text \<open>
  The store is outside the repository; the three SDK calls of the source are modelled
  as the SDK documents them. A call without a bucket name is refused by the SDK's
  parameter validation, a call on a bucket that does not exist by the store.
\<close>

text \<open>
  Writing an object into a bucket: an object that has the key already is replaced, a new
  key takes its place in the byte order of the keys (the order on strings is the
  lexicographic one on characters, a character counting as its code).
\<close>

fun put_object :: "string \<Rightarrow> s3_object \<Rightarrow> (string \<times> s3_object) list \<Rightarrow> (string \<times> s3_object) list" where
  "put_object key ob [] = [(key, ob)]"
| "put_object key ob ((k, old) # rest) =
     (if key = k then (key, ob) # rest
      else if key < k then (key, ob) # (k, old) # rest
      else (k, old) # put_object key ob rest)"

text \<open>
  \<^verbatim>\<open>upload_fileobj(fileobj, bucket, key, ExtraArgs={"ContentType": ctype})\<close>. The SDK
  validates the parameters before it sends anything: a bucket name or a content type
  that is \<^verbatim>\<open>None\<close> is refused with a \<^verbatim>\<open>ParamValidationError\<close>, which is not a
  \<^verbatim>\<open>ClientError\<close> (the text of its report is abridged here). Then the store or the
  network may fail, and a bucket that does not exist is refused by the store.
\<close>

definition upload_fileobj ::
  "world \<Rightarrow> s3_client \<Rightarrow> string \<Rightarrow> string option \<Rightarrow> string \<Rightarrow> string option \<Rightarrow> exn + world" where
  "upload_fileobj w client fileobj bucket key ctype =
     (case bucket of
        None \<Rightarrow> Inl (Exception ''Parameter validation failed: Invalid type for parameter Bucket'')
      | Some b \<Rightarrow>
          (case ctype of
             None \<Rightarrow>
               Inl (Exception ''Parameter validation failed: Invalid type for parameter ContentType'')
           | Some ct \<Rightarrow>
               (case s3_fault w PutObject of
                  Some e \<Rightarrow> Inl e
                | None \<Rightarrow>
                    (case buckets w b of
                       None \<Rightarrow> Inl (ClientError ''NoSuchBucket'')
                     | Some objs \<Rightarrow>
                         Inr (w\<lparr>buckets := (buckets w)(b \<mapsto>
                                put_object key \<lparr>obj_body = fileobj, obj_content_type = Some ct\<rparr>
                                  objs)\<rparr>)))))"

text \<open>
  One entry of \<^verbatim>\<open>Contents\<close>, and the response of \<^verbatim>\<open>list_objects_v2\<close>: at most
  \<open>max_keys\<close> entries, no \<^verbatim>\<open>Contents\<close> at all when there is none, and a continuation
  token (opaque; here the last key of the page) when more keys remain.
\<close>

record s3_summary =
  Key :: string
  Size :: nat

record list_response =
  Contents :: "s3_summary list option"
  IsTruncated :: bool
  NextContinuationToken :: "string option"

definition list_objects_v2 :: "world \<Rightarrow> s3_client \<Rightarrow> string option \<Rightarrow> exn + list_response" where
  "list_objects_v2 w client bucket =
     (case s3_fault w ListObjectsV2 of
        Some e \<Rightarrow> Inl e
      | None \<Rightarrow>
          (case bucket of
             None \<Rightarrow> Inl (Exception ''Parameter validation failed: Invalid type for parameter Bucket'')
           | Some b \<Rightarrow>
               (case buckets w b of
                  None \<Rightarrow> Inl (ClientError ''NoSuchBucket'')
                | Some objs \<Rightarrow>
                    (let page = take (max_keys w) objs;
                         more = (max_keys w < length objs)
                     in Inr \<lparr>Contents =
                               (if page = [] then None
                                else Some (map (\<lambda>(k, ob). \<lparr>Key = k, Size = length (obj_body ob)\<rparr>) page)),
                             IsTruncated = more,
                             NextContinuationToken =
                               (if more \<and> page \<noteq> [] then Some (fst (last page)) else None)\<rparr>))))"

definition generate_presigned_url ::
  "world \<Rightarrow> s3_client \<Rightarrow> string \<Rightarrow> string option \<Rightarrow> string \<Rightarrow> nat \<Rightarrow> exn + string" where
  "generate_presigned_url w client method bucket key expires_in =
     sign_url w \<lparr>pr_client = client, pr_method = method, pr_bucket = bucket,
                 pr_key = key, pr_expires_in = expires_in\<rparr>"

section \<open>The handlers\<close>

subsection \<open>Database\<close>

datatype connection = Connection conn_params

text \<open>
  \<^verbatim>\<open>connect_db\<close> (lines 47 to 63). \<^verbatim>\<open>int(os.getenv("DB_PORT"))\<close> raises when the variable
  is unset or not a number; that and every error of \<^verbatim>\<open>asyncpg.connect\<close> end in the
  \<^verbatim>\<open>except\<close> branch, which returns \<^verbatim>\<open>None\<close>. The line it prints is not modelled.
\<close>

definition connect_db :: "process \<Rightarrow> world \<Rightarrow> connection option \<times> world" where
  "connect_db p w =
     (case getenv p ''DB_PORT'' of
        None \<Rightarrow> (None, w)
      | Some s \<Rightarrow>
          (case int_of_str w s of
             None \<Rightarrow> (None, w)
           | Some port \<Rightarrow>
               (let params = \<lparr>cp_user = getenv p ''DB_USER'',
                              cp_password = getenv p ''DB_PASSWORD'',
                              cp_database = getenv p ''DB_NAME'',
                              cp_host = getenv p ''DB_HOST'',
                              cp_port = port\<rparr>;
                    w1 = w\<lparr>db_calls := db_calls w @ [Connect params]\<rparr>
                in (case db_connect_raises w params of
                      Some e \<Rightarrow> (None, w1)
                    | None \<Rightarrow> (Some (Connection params), w1)))))"

text \<open>
  \<^verbatim>\<open>get_data\<close> (lines 84 to 94). \<^verbatim>\<open>fetchrow\<close> gives a row or \<^verbatim>\<open>None\<close>; the row is read
  after \<^verbatim>\<open>conn.close()\<close>. Every exception inside the \<^verbatim>\<open>try\<close> ends in the same
  \<^verbatim>\<open>except\<close> branch.
\<close>

definition get_data :: "process \<Rightarrow> world \<Rightarrow> result \<times> world" where
  "get_data p w =
     (case connect_db p w of
        (None, w1) \<Rightarrow> (Returned (PDict [(''error'', PStr ''Database connection failed'')]), w1)
      | (Some conn, w1) \<Rightarrow>
          (let q = ''SELECT NOW() as current_time'';
               w2 = w1\<lparr>db_calls := db_calls w1 @ [Fetchrow q]\<rparr>
           in (case db_fetchrow_result w q of
                 Inl e \<Rightarrow> (Returned (PDict [(''error'', PStr (''Server error: '' @ str_exn e))]), w2)
               | Inr row \<Rightarrow>
                   (let w3 = w2\<lparr>db_calls := db_calls w2 @ [Close]\<rparr>
                    in (case db_close_raises w of
                          Some e \<Rightarrow>
                            (Returned (PDict [(''error'', PStr (''Server error: '' @ str_exn e))]), w3)
                        | None \<Rightarrow>
                            (case row of
                               None \<Rightarrow>
                                 (Returned (PDict [(''error'', PStr (''Server error: '' @
                                    CHR 0x27 # ''NoneType'' @ CHR 0x27 # '' object is not subscriptable''))]), w3)
                             | Some r \<Rightarrow>
                                 (case map_of r ''current_time'' of
                                    None \<Rightarrow>
                                      (Returned (PDict [(''error'', PStr (''Server error: '' @
                                         CHR 0x27 # ''current_time'' @ [CHR 0x27]))]), w3)
                                  | Some t \<Rightarrow>
                                      (Returned (PDict [(''Date'', t),
                                                        (''message'', PStr ''Hello from the database!'')]),
                                       w3))))))))"

subsection \<open>Fixed responses and the environment\<close>

definition health_check :: "process \<Rightarrow> world \<Rightarrow> result \<times> world" where
  "health_check p w = (JSONResponse (PDict [(''status'', PStr ''ok'')]) 200, w)"

text \<open>The message of \<^verbatim>\<open>root\<close> starts with U+1F680, four bytes in UTF-8.\<close>

definition root :: "process \<Rightarrow> world \<Rightarrow> result \<times> world" where
  "root p w =
     (Returned (PDict
        [(''message'', PStr ([CHR 0xF0, CHR 0x9F, CHR 0x9A, CHR 0x80] @ '' Deployment Successful!'')),
         (''status'', PStr ''running''),
         (''timestamp'', PFloat (loop_time w)),
         (''origin'', py_opt_str (getenv p ''FRONTEND_DOMAIN''))]), w)"

definition api_hello :: "process \<Rightarrow> world \<Rightarrow> result \<times> world" where
  "api_hello p w = (Returned (PDict [(''message'', PStr ''Hello from the backend!'')]), w)"

definition debug_env :: "process \<Rightarrow> world \<Rightarrow> result \<times> world" where
  "debug_env p w =
     (Returned (PDict
        [(''AWS_ACCESS_KEY_ID'', py_opt_str (getenv p ''AWS_ACCESS_KEY_ID'')),
         (''AWS_SECRET_ACCESS_KEY'', py_opt_str (getenv p ''AWS_SECRET_ACCESS_KEY'')),
         (''AWS_REGION'', py_opt_str (getenv p ''AWS_REGION'')),
         (''S3_BUCKET_NAME'', py_opt_str (getenv p ''S3_BUCKET_NAME'')),
         (''DB_USER'', py_opt_str (getenv p ''DB_USER'')),
         (''DB_PASSWORD'', py_opt_str (getenv p ''DB_PASSWORD'')),
         (''DB_NAME'', py_opt_str (getenv p ''DB_NAME'')),
         (''DB_HOST'', py_opt_str (getenv p ''DB_HOST'')),
         (''DB_PORT'', py_opt_str (getenv p ''DB_PORT'')),
         (''FRONTEND_DOMAIN'', py_opt_str (getenv p ''FRONTEND_DOMAIN''))]), w)"

subsection \<open>Files\<close>

text \<open>
  The \<^verbatim>\<open>UploadFile\<close> of a request: \<^verbatim>\<open>filename\<close>, \<^verbatim>\<open>content_type\<close> and \<^verbatim>\<open>size\<close> are
  optional in the framework's type; \<open>file_bytes\<close> is what \<^verbatim>\<open>file.file\<close> yields.
\<close>

record UploadFile =
  filename :: "string option"
  content_type :: "string option"
  file_size :: "int option"
  file_bytes :: string

text \<open>
  \<^verbatim>\<open>upload_file\<close> (lines 111 to 133). With no filename, \<^verbatim>\<open>file.filename.split\<close> raises
  \<^verbatim>\<open>AttributeError\<close>, which the second \<^verbatim>\<open>except\<close> catches. The list that \<^verbatim>\<open>split\<close>
  returns is indexed with \<^verbatim>\<open>[-1]\<close>, which would raise \<^verbatim>\<open>IndexError\<close> on an empty list.
\<close>

definition upload_file :: "process \<Rightarrow> world \<Rightarrow> UploadFile \<Rightarrow> result \<times> world" where
  "upload_file p w file =
     (case filename file of
        None \<Rightarrow>
          (HTTPException 500 (''Upload failed: '' @
             CHR 0x27 # ''NoneType'' @ CHR 0x27 # '' object has no attribute '' @
             CHR 0x27 # ''split'' @ [CHR 0x27]), w)
      | Some name \<Rightarrow>
          (case py_split CHR ''.'' name of
             [] \<Rightarrow> (HTTPException 500 (''Upload failed: list index out of range''), w)
           | part # parts \<Rightarrow>
               (let ext = last (part # parts);
                    (u, w1) = uuid4 w;
                    unique_filename = ''images/'' @ u @ ''.'' @ ext
                in (case upload_fileobj w1 (s3_client p) (file_bytes file) (S3_BUCKET_NAME p)
                           unique_filename (content_type file) of
                      Inl (ClientError m) \<Rightarrow> (HTTPException 500 (''S3 upload failed: '' @ m), w1)
                    | Inl (Exception m) \<Rightarrow> (HTTPException 500 (''Upload failed: '' @ m), w1)
                    | Inr w2 \<Rightarrow>
                        (let file_url = ''https://'' @ fmt_opt_str (S3_BUCKET_NAME p) @
                                        ''.s3.amazonaws.com/'' @ unique_filename
                         in (Returned (PDict
                               [(''message'', PStr ''File uploaded successfully''),
                                (''filename'', PStr unique_filename),
                                (''file_url'', PStr file_url),
                                (''content_type'', py_opt_str (content_type file)),
                                (''size'', py_opt_int (file_size file))]), w2))))))"

definition list_images :: "process \<Rightarrow> world \<Rightarrow> result \<times> world" where
  "list_images p w =
     (case list_objects_v2 w (s3_client p) (S3_BUCKET_NAME p) of
        Inl e \<Rightarrow> (HTTPException 500 (''Failed to list images: '' @ str_exn e), w)
      | Inr response \<Rightarrow>
          (let images = map Key (case Contents response of None \<Rightarrow> [] | Some objs \<Rightarrow> objs)
           in (Returned (PDict [(''images'', PList (map PStr images))]), w)))"

definition get_presigned_url :: "process \<Rightarrow> world \<Rightarrow> string \<Rightarrow> result \<times> world" where
  "get_presigned_url p w name =
     (case generate_presigned_url w (s3_client p) ''get_object'' (S3_BUCKET_NAME p) name 3600 of
        Inl e \<Rightarrow> (HTTPException 500 (''Presigned URL generation failed: '' @ str_exn e), w)
      | Inr url \<Rightarrow> (Returned (PDict [(''url'', PStr url)]), w))"

subsection \<open>Routing\<close>

text \<open>The routes that the decorators of the file declare, and the handler of each.\<close>

datatype request =
    GET_health
  | GET_root
  | GET_api_hello
  | GET_api_data
  | GET_api_debug_env
  | POST_api_upload UploadFile
  | GET_api_list_images
  | GET_api_generate_presigned_url string

fun handle :: "process \<Rightarrow> world \<Rightarrow> request \<Rightarrow> result \<times> world" where
  "handle p w GET_health = health_check p w"
| "handle p w GET_root = root p w"
| "handle p w GET_api_hello = api_hello p w"
| "handle p w GET_api_data = get_data p w"
| "handle p w GET_api_debug_env = debug_env p w"
| "handle p w (POST_api_upload file) = upload_file p w file"
| "handle p w GET_api_list_images = list_images p w"
| "handle p w (GET_api_generate_presigned_url name) = get_presigned_url p w name"

section \<open>Example inputs\<close>

text \<open>
  A process started from ten variables, and a world in which every outside party
  answers: two identifiers to draw, a database that returns one row, and a bucket of
  three objects that the store lists two at a time.
\<close>

definition example_environ :: "(string \<times> string) list" where
  "example_environ =
     [(''AWS_ACCESS_KEY_ID'', ''AKIAEXAMPLE''),
      (''AWS_SECRET_ACCESS_KEY'', ''wJalrEXAMPLEKEY''),
      (''AWS_REGION'', ''eu-west-1''),
      (''S3_BUCKET_NAME'', ''portfolio''),
      (''DB_USER'', ''app''),
      (''DB_PASSWORD'', ''hunter2''),
      (''DB_NAME'', ''appdb''),
      (''DB_HOST'', ''db.internal''),
      (''DB_PORT'', ''5432''),
      (''FRONTEND_DOMAIN'', ''http://localhost:3000'')]"

definition example_process :: process where
  "example_process = startup Map.empty (map_of example_environ)"

definition example_world :: world where
  "example_world =
     \<lparr>rand_uuid = (\<lambda>n. if n = 0 then ''6f1c2a9e-0b7d-4c55-9a3e-2d8f4b1c7e10''
                        else ''c0a8d3f2-91e4-4b6a-8f27-5e3b9d0a1c44''),
      rand_pos = 0,
      loop_time = 12.5,
      int_of_str = (\<lambda>s. if s = ''5432'' then Some 5432 else None),
      db_connect_raises = (\<lambda>params. None),
      db_fetchrow_result =
        (\<lambda>q. Inr (Some [(''current_time'', PDatetime ''2024-05-01T10:00:00+00:00'')])),
      db_close_raises = None,
      db_calls = [],
      s3_fault = (\<lambda>operation. None),
      buckets = [''portfolio'' \<mapsto>
                  [(''images/a.png'', \<lparr>obj_body = ''A'', obj_content_type = Some ''image/png''\<rparr>),
                   (''images/b.png'', \<lparr>obj_body = ''BB'', obj_content_type = Some ''image/png''\<rparr>),
                   (''images/c.png'', \<lparr>obj_body = ''CCC'', obj_content_type = Some ''image/png''\<rparr>)]],
      max_keys = 2,
      sign_url = (\<lambda>r. Inr (''https://'' @ fmt_opt_str (pr_bucket r) @ ''.s3.amazonaws.com/'' @
                             pr_key r @ ''?X-Amz-Expires=3600&X-Amz-Signature=ab12''))\<rparr>"

text \<open>The same world with a server that accepts the connection and fails the query.\<close>

definition example_world_query_fails :: world where
  "example_world_query_fails =
     example_world\<lparr>db_fetchrow_result := (\<lambda>q. Inl (Exception ''connection was closed''))\<rparr>"

text \<open>The same world with a store that refuses every operation.\<close>

definition example_world_store_down :: world where
  "example_world_store_down =
     example_world\<lparr>s3_fault := (\<lambda>operation. Some (ClientError ''AccessDenied''))\<rparr>"

definition example_photo :: UploadFile where
  "example_photo =
     \<lparr>filename = Some ''photo.png'', content_type = Some ''image/png'',
      file_size = Some 4, file_bytes = ''PNG1''\<rparr>"

definition example_no_extension :: UploadFile where
  "example_no_extension =
     \<lparr>filename = Some ''README'', content_type = Some ''text/plain'',
      file_size = Some 5, file_bytes = ''hello''\<rparr>"

section \<open>Properties of \<open>py_split\<close>\<close>

lemma py_split_not_Nil: "py_split c s \<noteq> []"
  by (induction s) (auto split: list.splits)

lemma last_py_split_no_sep: "c \<notin> set (last (py_split c s))"
proof (induction s)
  case Nil
  then show ?case by simp
next
  case (Cons x xs)
  then show ?case
    using py_split_not_Nil [of c xs]
    by (auto split: list.splits)
qed

lemma py_split_no_sep: "c \<notin> set s \<Longrightarrow> py_split c s = [s]"
  by (induction s) auto

lemma py_split_single: "py_split c s = [w] \<Longrightarrow> c \<notin> set s"
proof (induction s arbitrary: w)
  case Nil
  then show ?case by simp
next
  case (Cons x xs)
  then show ?case
    using py_split_not_Nil [of c xs]
    by (auto split: if_splits list.splits)
qed

lemma last_py_split_append: "c \<notin> set e \<Longrightarrow> last (py_split c (a @ c # e)) = e"
proof (induction a)
  case Nil
  then show ?case
    using py_split_not_Nil [of c e] by (simp add: py_split_no_sep)
next
  case (Cons x a)
  then show ?case
    using py_split_not_Nil [of c "a @ c # e"] py_split_single [of c "a @ c # e"]
    by (auto split: list.splits)
qed

text \<open>A string that ends in a separator and a piece without one has one such reading.\<close>

lemma sep_suffix_unique:
  fixes c :: char
  assumes "c \<notin> set e1" "c \<notin> set e2" "u1 @ c # e1 = u2 @ c # e2"
  shows "u1 = u2 \<and> e1 = e2"
proof -
  have "last (py_split c (u1 @ c # e1)) = e1"
    using assms(1) by (rule last_py_split_append)
  moreover have "last (py_split c (u2 @ c # e2)) = e2"
    using assms(2) by (rule last_py_split_append)
  ultimately have "e1 = e2"
    by (simp only: assms(3))
  with assms(3) show ?thesis by simp
qed

section \<open>Properties of \<open>put_object\<close>\<close>

text \<open>The written key is in the bucket with the new object, and the byte order is kept.\<close>

lemma put_object_keys: "set (map fst (put_object key ob objs)) = insert key (set (map fst objs))"
  by (induction key ob objs rule: put_object.induct) auto

lemma put_object_lookup: "map_of (put_object key ob objs) key = Some ob"
  by (induction key ob objs rule: put_object.induct) auto

lemma put_object_sorted:
  "sorted (map fst objs) \<Longrightarrow> sorted (map fst (put_object key ob objs))"
proof (induction key ob objs rule: put_object.induct)
  case (1 key ob)
  then show ?case by simp
next
  case (2 key ob k old rest)
  then show ?case
    by (auto simp add: put_object_keys simp del: set_map)
qed

section \<open>Facts about the example inputs\<close>

lemma example_bucket_name: "S3_BUCKET_NAME example_process = Some ''portfolio''"
  by (simp add: example_process_def startup_def load_dotenv_def example_environ_def)

lemma example_objects:
  "buckets example_world ''portfolio'' = Some
     [(''images/a.png'', \<lparr>obj_body = ''A'', obj_content_type = Some ''image/png''\<rparr>),
      (''images/b.png'', \<lparr>obj_body = ''BB'', obj_content_type = Some ''image/png''\<rparr>),
      (''images/c.png'', \<lparr>obj_body = ''CCC'', obj_content_type = Some ''image/png''\<rparr>)]"
  by (simp add: example_world_def)

section \<open>Uploads\<close>

text \<open>
  What \<open>upload_file\<close> does when the SDK call returns, what the store holds then, what
  the handler returns whenever it returns, and what it raises when the call is refused.
\<close>

lemma upload_fileobj_accepts:
  assumes "s3_fault w PutObject = None"
    and "buckets w b = Some objs"
  shows "upload_fileobj w client fileobj (Some b) key (Some ct) =
           Inr (w\<lparr>buckets := (buckets w)(b \<mapsto>
                  put_object key \<lparr>obj_body = fileobj, obj_content_type = Some ct\<rparr> objs)\<rparr>)"
  using assms by (simp add: upload_fileobj_def)

lemma upload_fileobj_no_content_type:
  "\<exists>m. upload_fileobj w client fileobj bucket key None = Inl (Exception m)"
  by (simp add: upload_fileobj_def split: option.splits)

lemma upload_file_accepted:
  assumes "filename file = Some name"
    and "upload_fileobj (w\<lparr>rand_pos := Suc (rand_pos w)\<rparr>) (s3_client p) (file_bytes file)
           (S3_BUCKET_NAME p)
           (''images/'' @ rand_uuid w (rand_pos w) @ ''.'' @ last (py_split CHR ''.'' name))
           (content_type file) = Inr w2"
  shows "upload_file p w file =
    (let key = ''images/'' @ rand_uuid w (rand_pos w) @ ''.'' @ last (py_split CHR ''.'' name)
     in (Returned (PDict
           [(''message'', PStr ''File uploaded successfully''),
            (''filename'', PStr key),
            (''file_url'', PStr (''https://'' @ fmt_opt_str (S3_BUCKET_NAME p) @
                                 ''.s3.amazonaws.com/'' @ key)),
            (''content_type'', py_opt_str (content_type file)),
            (''size'', py_opt_int (file_size file))]),
         w2))"
proof -
  obtain part parts where parts: "py_split CHR ''.'' name = part # parts"
    using py_split_not_Nil [of "CHR ''.''" name] by (cases "py_split CHR ''.'' name") auto
  from assms(2) have "upload_fileobj (w\<lparr>rand_pos := Suc (rand_pos w)\<rparr>) (s3_client p)
      (file_bytes file) (S3_BUCKET_NAME p)
      (''images/'' @ rand_uuid w (rand_pos w) @ ''.'' @ last (part # parts))
      (content_type file) = Inr w2"
    by (simp only: parts)
  with assms(1) show ?thesis
    by (simp add: upload_file_def uuid4_def Let_def parts del: last.simps)
qed

lemma upload_file_stored:
  assumes "filename file = Some name"
    and "content_type file = Some ct"
    and "s3_fault w PutObject = None"
    and "S3_BUCKET_NAME p = Some b"
    and "buckets w b = Some objs"
  shows "upload_file p w file =
    (let key = ''images/'' @ rand_uuid w (rand_pos w) @ ''.'' @ last (py_split CHR ''.'' name)
     in (Returned (PDict
           [(''message'', PStr ''File uploaded successfully''),
            (''filename'', PStr key),
            (''file_url'', PStr (''https://'' @ b @ ''.s3.amazonaws.com/'' @ key)),
            (''content_type'', PStr ct),
            (''size'', py_opt_int (file_size file))]),
         w\<lparr>rand_pos := Suc (rand_pos w),
           buckets := (buckets w)(b \<mapsto> put_object key
              \<lparr>obj_body = file_bytes file, obj_content_type = Some ct\<rparr> objs)\<rparr>))"
proof -
  have "upload_fileobj (w\<lparr>rand_pos := Suc (rand_pos w)\<rparr>) (s3_client p) (file_bytes file)
          (S3_BUCKET_NAME p)
          (''images/'' @ rand_uuid w (rand_pos w) @ ''.'' @ last (py_split CHR ''.'' name))
          (content_type file) =
        Inr (w\<lparr>rand_pos := Suc (rand_pos w),
               buckets := (buckets w)(b \<mapsto> put_object
                 (''images/'' @ rand_uuid w (rand_pos w) @ ''.'' @ last (py_split CHR ''.'' name))
                 \<lparr>obj_body = file_bytes file, obj_content_type = Some ct\<rparr> objs)\<rparr>)"
    using assms(2-5) by (simp add: upload_fileobj_def)
  from upload_file_accepted [OF assms(1) this] assms(2,4) show ?thesis
    by (simp add: Let_def)
qed

text \<open>A file without a content type: the SDK refuses the call and the handler raises 500.\<close>

lemma upload_file_no_content_type:
  assumes "filename file = Some name" "content_type file = None"
  shows "\<exists>d. upload_file p w file = (HTTPException 500 (''Upload failed: '' @ d),
                                        w\<lparr>rand_pos := Suc (rand_pos w)\<rparr>)"
  using assms py_split_not_Nil [of "CHR ''.''" name]
  by (auto simp add: upload_file_def uuid4_def upload_fileobj_def Let_def
      split: list.splits option.splits)

lemma upload_file_Returned:
  assumes "fst (upload_file p w file) = Returned v"
  shows "\<exists>name rest. filename file = Some name \<and>
     v = PDict ((''message'', PStr ''File uploaded successfully'') #
                (''filename'', PStr (''images/'' @ rand_uuid w (rand_pos w) @ ''.'' @
                                      last (py_split CHR ''.'' name))) # rest)"
  using assms
  by (auto simp add: upload_file_def uuid4_def Let_def
      split: option.splits list.splits sum.splits exn.splits)

lemma upload_file_raises:
  assumes "s3_fault w PutObject = Some e" "filename file = Some name"
  shows "\<exists>d. fst (upload_file p w file) = HTTPException 500 d"
  using assms py_split_not_Nil [of "CHR ''.''" name]
  by (cases e)
    (auto simp add: upload_file_def uuid4_def upload_fileobj_def Let_def
      split: list.splits option.splits)

text \<open>A store that refuses the object: the handler raises, with status 500.\<close>

lemma upload_file_refused_example:
  "fst (handle example_process example_world_store_down (POST_api_upload example_photo)) =
     HTTPException 500 ''S3 upload failed: AccessDenied''"
  by (simp add: upload_file_def uuid4_def upload_fileobj_def Let_def example_photo_def
      example_world_store_down_def example_bucket_name)

text \<open>The same upload without a content type.\<close>

lemma upload_file_no_content_type_example:
  "handle example_process example_world (POST_api_upload (example_photo\<lparr>content_type := None\<rparr>)) =
     (HTTPException 500
        ''Upload failed: Parameter validation failed: Invalid type for parameter ContentType'',
      example_world\<lparr>rand_pos := 1\<rparr>)"
  by (simp add: upload_file_def uuid4_def upload_fileobj_def Let_def example_photo_def
      example_bucket_name) (simp add: example_world_def)

text \<open>
  After the upload the listing starts with the new key, which comes before
  \<^verbatim>\<open>images/a.png\<close> in byte order.
\<close>

lemma upload_then_list_example:
  "fst (handle example_process
          (snd (handle example_process example_world (POST_api_upload example_photo)))
          GET_api_list_images) =
     Returned (PDict [(''images'',
       PList [PStr ''images/6f1c2a9e-0b7d-4c55-9a3e-2d8f4b1c7e10.png'', PStr ''images/a.png''])])"
proof -
  have f: "filename example_photo = Some ''photo.png''"
    and c: "content_type example_photo = Some ''image/png''"
    by (simp_all add: example_photo_def)
  have s: "s3_fault example_world PutObject = None"
    and l: "s3_fault example_world ListObjectsV2 = None"
    and m: "max_keys example_world = 2"
    and r: "rand_uuid example_world (rand_pos example_world) = ''6f1c2a9e-0b7d-4c55-9a3e-2d8f4b1c7e10''"
    by (simp_all add: example_world_def)
  have lt: "''images/6f1c2a9e-0b7d-4c55-9a3e-2d8f4b1c7e10.png'' < ''images/a.png''"
    by (simp add: less_char_def)
  note up = upload_file_stored [OF f c s example_bucket_name example_objects]
  show ?thesis
    using lt
    by (simp add: up Let_def list_images_def list_objects_v2_def example_bucket_name l m r
        numeral_2_eq_2)
qed

text \<open>
  Claim C1. An upload whose file is named \<^verbatim>\<open>photo.png\<close> draws the next identifier and
  hands the object to the SDK under the key \<^verbatim>\<open>images/<uuid>.png\<close>; whenever that call
  returns, the handler returns this key as \<open>filename\<close> and a \<open>file_url\<close> that ends in
  it. (When the call raises, the handler raises 500: \<open>upload_file_raises\<close>,
  \<open>upload_file_no_content_type\<close>.)
\<close>

theorem upload_photo_png_key_and_url:
  assumes "filename file = Some ''photo.png''"
    and "upload_fileobj (w\<lparr>rand_pos := Suc (rand_pos w)\<rparr>) (s3_client p) (file_bytes file)
           (S3_BUCKET_NAME p) (''images/'' @ rand_uuid w (rand_pos w) @ ''.png'')
           (content_type file) = Inr w'"
  shows "let key = ''images/'' @ rand_uuid w (rand_pos w) @ ''.png'';
             url = ''https://'' @ fmt_opt_str (S3_BUCKET_NAME p) @ ''.s3.amazonaws.com/'' @ key
         in handle p w (POST_api_upload file) =
              (Returned (PDict
                 [(''message'', PStr ''File uploaded successfully''),
                  (''filename'', PStr key),
                  (''file_url'', PStr url),
                  (''content_type'', py_opt_str (content_type file)),
                  (''size'', py_opt_int (file_size file))]),
               w')"
proof -
  have ext: "last (py_split CHR ''.'' ''photo.png'') = ''png''"
    by simp
  have "upload_fileobj (w\<lparr>rand_pos := Suc (rand_pos w)\<rparr>) (s3_client p) (file_bytes file)
          (S3_BUCKET_NAME p)
          (''images/'' @ rand_uuid w (rand_pos w) @ ''.'' @ last (py_split CHR ''.'' ''photo.png''))
          (content_type file) = Inr w'"
    using assms(2) by (simp only: ext) simp
  from upload_file_accepted [OF assms(1) this] show ?thesis
    by (simp add: Let_def)
qed

theorem upload_photo_png_key_and_url_witness:
  "fst (handle example_process example_world (POST_api_upload example_photo)) =
     Returned (PDict
       [(''message'', PStr ''File uploaded successfully''),
        (''filename'', PStr ''images/6f1c2a9e-0b7d-4c55-9a3e-2d8f4b1c7e10.png''),
        (''file_url'', PStr ''https://portfolio.s3.amazonaws.com/images/6f1c2a9e-0b7d-4c55-9a3e-2d8f4b1c7e10.png''),
        (''content_type'', PStr ''image/png''),
        (''size'', PInt 4)])"
proof -
  have f: "filename example_photo = Some ''photo.png''"
    by (simp add: example_photo_def)
  have s: "s3_fault example_world PutObject = None"
    by (simp add: example_world_def)
  have r: "rand_uuid example_world (rand_pos example_world) = ''6f1c2a9e-0b7d-4c55-9a3e-2d8f4b1c7e10''"
    by (simp add: example_world_def)
  have c: "content_type example_photo = Some ''image/png''" "file_size example_photo = Some 4"
    by (simp_all add: example_photo_def)
  have "\<exists>w'. upload_fileobj (example_world\<lparr>rand_pos := Suc (rand_pos example_world)\<rparr>)
          (s3_client example_process) (file_bytes example_photo) (S3_BUCKET_NAME example_process)
          (''images/'' @ rand_uuid example_world (rand_pos example_world) @ ''.png'')
          (content_type example_photo) = Inr w'"
    using s example_objects
    by (simp add: upload_fileobj_def example_bucket_name c)
  then obtain w' where "upload_fileobj (example_world\<lparr>rand_pos := Suc (rand_pos example_world)\<rparr>)
          (s3_client example_process) (file_bytes example_photo) (S3_BUCKET_NAME example_process)
          (''images/'' @ rand_uuid example_world (rand_pos example_world) @ ''.png'')
          (content_type example_photo) = Inr w'" ..
  from upload_photo_png_key_and_url [OF f this] show ?thesis
    by (simp add: Let_def r c example_bucket_name)
qed

text \<open>
  Claim C2. Two uploads whose generated identifiers differ return different keys, whatever
  the two files are (the same bytes and the same name included). The extension has no
  dot, so the key determines the identifier.
\<close>

theorem upload_keys_distinct:
  assumes "rand_uuid w (rand_pos w) \<noteq> rand_uuid w' (rand_pos w')"
    and "fst (handle p w (POST_api_upload file)) = Returned (PDict r)"
    and "fst (handle p' w' (POST_api_upload file')) = Returned (PDict r')"
  shows "\<exists>k k'. map_of r ''filename'' = Some (PStr k) \<and>
                 map_of r' ''filename'' = Some (PStr k') \<and> k \<noteq> k'"
proof -
  have h: "fst (upload_file p w file) = Returned (PDict r)"
    and h': "fst (upload_file p' w' file') = Returned (PDict r')"
    using assms(2,3) by simp_all
  from h obtain name rest where
    r: "r = (''message'', PStr ''File uploaded successfully'') #
            (''filename'', PStr (''images/'' @ rand_uuid w (rand_pos w) @ ''.'' @
                                  last (py_split CHR ''.'' name))) # rest"
    using upload_file_Returned [OF h] by auto
  from h' obtain name' rest' where
    r': "r' = (''message'', PStr ''File uploaded successfully'') #
              (''filename'', PStr (''images/'' @ rand_uuid w' (rand_pos w') @ ''.'' @
                                    last (py_split CHR ''.'' name'))) # rest'"
    using upload_file_Returned [OF h'] by auto
  let ?e = "last (py_split CHR ''.'' name)" and ?e' = "last (py_split CHR ''.'' name')"
  have "rand_uuid w (rand_pos w) @ CHR ''.'' # ?e \<noteq> rand_uuid w' (rand_pos w') @ CHR ''.'' # ?e'"
    using sep_suffix_unique [OF last_py_split_no_sep last_py_split_no_sep] assms(1) by blast
  then show ?thesis
    by (simp add: r r')
qed

theorem upload_keys_distinct_witness:
  "\<exists>r r' k k'.
     fst (handle example_process example_world (POST_api_upload example_photo)) = Returned (PDict r) \<and>
     fst (handle example_process
            (snd (handle example_process example_world (POST_api_upload example_photo)))
            (POST_api_upload example_photo)) = Returned (PDict r') \<and>
     map_of r ''filename'' = Some (PStr k) \<and> map_of r' ''filename'' = Some (PStr k') \<and> k \<noteq> k'"
proof -
  let ?w1 = "snd (handle example_process example_world (POST_api_upload example_photo))"
  have f: "filename example_photo = Some ''photo.png''"
    by (simp add: example_photo_def)
  have s: "s3_fault example_world PutObject = None"
    by (simp add: example_world_def)
  have c: "content_type example_photo = Some ''image/png''"
    by (simp add: example_photo_def)
  note first = upload_file_stored [OF f c s example_bucket_name example_objects]
  have pos: "rand_pos ?w1 = Suc (rand_pos example_world)" "rand_uuid ?w1 = rand_uuid example_world"
    "s3_fault ?w1 = s3_fault example_world"
    by (simp_all add: first Let_def)
  have objs1: "\<exists>objs. buckets ?w1 ''portfolio'' = Some objs"
    by (simp add: first Let_def)
  then obtain objs where o1: "buckets ?w1 ''portfolio'' = Some objs" ..
  have s1: "s3_fault ?w1 PutObject = None"
    using pos(3) s by simp
  note second = upload_file_stored [OF f c s1 example_bucket_name o1]
  have d: "rand_uuid example_world (rand_pos example_world) \<noteq> rand_uuid ?w1 (rand_pos ?w1)"
    using pos(1,2) by (simp add: example_world_def)
  have "\<exists>r. fst (handle example_process example_world (POST_api_upload example_photo)) = Returned (PDict r)"
    using first by (simp add: Let_def)
  then obtain r where
    r1: "fst (handle example_process example_world (POST_api_upload example_photo)) = Returned (PDict r)" ..
  have "\<exists>r'. fst (handle example_process ?w1 (POST_api_upload example_photo)) = Returned (PDict r')"
    using second by (simp add: Let_def)
  then obtain r' where
    r2: "fst (handle example_process ?w1 (POST_api_upload example_photo)) = Returned (PDict r')" ..
  from upload_keys_distinct [OF d r1 r2] r1 r2 show ?thesis
    by blast
qed

section \<open>The database endpoint\<close>

text \<open>
  The paths of \<open>get_data\<close>: no connection, a query that raises, and a query that
  returns, after which the connection is closed.
\<close>

lemma get_data_connect_fails:
  assumes "fst (connect_db p w) = None"
  shows "fst (get_data p w) = Returned (PDict [(''error'', PStr ''Database connection failed'')])"
  using assms by (cases "connect_db p w") (simp add: get_data_def)

lemma get_data_query_fails:
  assumes "connect_db p w = (Some conn, w1)"
    and "db_fetchrow_result w ''SELECT NOW() as current_time'' = Inl e"
  shows "get_data p w =
     (Returned (PDict [(''error'', PStr (''Server error: '' @ str_exn e))]),
      w1\<lparr>db_calls := db_calls w1 @ [Fetchrow ''SELECT NOW() as current_time'']\<rparr>)"
  using assms by (simp add: get_data_def Let_def)

lemma connect_db_calls:
  assumes "connect_db p w = (Some conn, w1)"
  shows "\<exists>params. conn = Connection params \<and> db_connect_raises w params = None \<and>
           w1 = w\<lparr>db_calls := db_calls w @ [Connect params]\<rparr>"
  using assms
  by (auto simp add: connect_db_def Let_def split: option.splits)

lemma get_data_query_succeeds_closes:
  assumes "connect_db p w = (Some conn, w1)"
    and "db_fetchrow_result w ''SELECT NOW() as current_time'' = Inr row"
  shows "db_calls (snd (get_data p w)) =
           db_calls w1 @ [Fetchrow ''SELECT NOW() as current_time'', Close]"
  using assms
  by (simp add: get_data_def Let_def split: option.splits)

text \<open>
  Claim C3. When the connection is not established or the query raises, \<^verbatim>\<open>GET /api/data\<close>
  returns a body whose only field is \<^verbatim>\<open>error\<close>, as a plain value, which the framework
  sends with status 200; nothing is raised.
\<close>

theorem get_data_failure_is_error_payload_200:
  assumes "fst (connect_db p w) = None \<or>
           (\<exists>e. db_fetchrow_result w ''SELECT NOW() as current_time'' = Inl e)"
  shows "\<exists>m. fst (handle p w GET_api_data) = Returned (PDict [(''error'', PStr m)]) \<and>
             serve (fst (handle p w GET_api_data)) =
               \<lparr>status_code = 200, json_body = PDict [(''error'', PStr m)]\<rparr>"
proof (cases "fst (connect_db p w)")
  case None
  then show ?thesis
    by (simp add: get_data_connect_fails)
next
  case (Some conn)
  with assms obtain e where e: "db_fetchrow_result w ''SELECT NOW() as current_time'' = Inl e"
    by auto
  from Some have "connect_db p w = (Some conn, snd (connect_db p w))"
    by (cases "connect_db p w") simp
  from get_data_query_fails [OF this e] show ?thesis
    by simp
qed

theorem get_data_failure_is_error_payload_200_witness:
  "db_fetchrow_result example_world_query_fails ''SELECT NOW() as current_time'' =
     Inl (Exception ''connection was closed'') \<and>
   (\<exists>m. fst (handle example_process example_world_query_fails GET_api_data) =
          Returned (PDict [(''error'', PStr m)]) \<and>
        serve (fst (handle example_process example_world_query_fails GET_api_data)) =
          \<lparr>status_code = 200, json_body = PDict [(''error'', PStr m)]\<rparr>)"
proof -
  have q: "db_fetchrow_result example_world_query_fails ''SELECT NOW() as current_time'' =
     Inl (Exception ''connection was closed'')"
    by (simp add: example_world_query_fails_def)
  then have "fst (connect_db example_process example_world_query_fails) = None \<or>
    (\<exists>e. db_fetchrow_result example_world_query_fails ''SELECT NOW() as current_time'' = Inl e)"
    by blast
  from get_data_failure_is_error_payload_200 [OF this] q show ?thesis
    by blast
qed

lemma get_data_never_raises: "\<exists>v. fst (get_data p w) = Returned v"
  by (simp add: get_data_def Let_def split: prod.splits option.splits sum.splits)

lemma example_connect:
  "connect_db example_process example_world_query_fails =
     (Some (Connection \<lparr>cp_user = Some ''app'', cp_password = Some ''hunter2'',
                         cp_database = Some ''appdb'', cp_host = Some ''db.internal'',
                         cp_port = 5432\<rparr>),
      example_world_query_fails\<lparr>db_calls :=
        [Connect \<lparr>cp_user = Some ''app'', cp_password = Some ''hunter2'',
                  cp_database = Some ''appdb'', cp_host = Some ''db.internal'',
                  cp_port = 5432\<rparr>]\<rparr>)"
  by (simp add: connect_db_def getenv_def example_process_def startup_def load_dotenv_def
      example_environ_def example_world_query_fails_def example_world_def Let_def)

text \<open>
  Claim C7. With a connection established and a query that raises, the handler returns
  the error payload and \<^verbatim>\<open>conn.close()\<close> is never called: the calls made to the driver
  are the connect and the query. The claim says the connection is closed on this path
  too.
\<close>

theorem get_data_query_error_skips_close:
  "fst (handle example_process example_world_query_fails GET_api_data) =
     Returned (PDict [(''error'', PStr ''Server error: connection was closed'')]) \<and>
   db_calls (snd (handle example_process example_world_query_fails GET_api_data)) =
     [Connect \<lparr>cp_user = Some ''app'', cp_password = Some ''hunter2'',
               cp_database = Some ''appdb'', cp_host = Some ''db.internal'',
               cp_port = 5432\<rparr>,
      Fetchrow ''SELECT NOW() as current_time''] \<and>
   Close \<notin> set (db_calls (snd (handle example_process example_world_query_fails GET_api_data)))"
proof -
  have q: "db_fetchrow_result example_world_query_fails ''SELECT NOW() as current_time'' =
     Inl (Exception ''connection was closed'')"
    by (simp add: example_world_query_fails_def)
  show ?thesis
    by (simp add: get_data_query_fails [OF example_connect q])
qed

section \<open>The object-store endpoints\<close>

lemma get_presigned_url_raises:
  assumes "sign_url w \<lparr>pr_client = s3_client p, pr_method = ''get_object'',
                       pr_bucket = S3_BUCKET_NAME p, pr_key = name,
                       pr_expires_in = 3600\<rparr> = Inl e"
  shows "get_presigned_url p w name =
           (HTTPException 500 (''Presigned URL generation failed: '' @ str_exn e), w)"
  using assms by (simp add: get_presigned_url_def generate_presigned_url_def)

text \<open>
  Claim C4. \<^verbatim>\<open>GET /api/generate-presigned-url?filename=<key>\<close> returns the URL that the signer
  gives for \<^verbatim>\<open>get_object\<close> on the configured bucket, the key exactly as supplied and an
  expiry of 3600 seconds, for every key and whatever the buckets hold.
\<close>

theorem presigned_url_for_requested_key:
  assumes "sign_url w \<lparr>pr_client = s3_client p, pr_method = ''get_object'',
                       pr_bucket = S3_BUCKET_NAME p, pr_key = name,
                       pr_expires_in = 3600\<rparr> = Inr url"
  shows "handle p (w\<lparr>buckets := bs\<rparr>) (GET_api_generate_presigned_url name) =
           (Returned (PDict [(''url'', PStr url)]), w\<lparr>buckets := bs\<rparr>)"
  using assms by (simp add: get_presigned_url_def generate_presigned_url_def)

theorem presigned_url_for_requested_key_witness:
  "handle example_process (example_world\<lparr>buckets := [''portfolio'' \<mapsto> []]\<rparr>)
     (GET_api_generate_presigned_url ''images/x.png'') =
   (Returned (PDict [(''url'', PStr
      ''https://portfolio.s3.amazonaws.com/images/x.png?X-Amz-Expires=3600&X-Amz-Signature=ab12'')]),
    example_world\<lparr>buckets := [''portfolio'' \<mapsto> []]\<rparr>)"
proof -
  have "sign_url example_world
          \<lparr>pr_client = s3_client example_process, pr_method = ''get_object'',
           pr_bucket = S3_BUCKET_NAME example_process, pr_key = ''images/x.png'',
           pr_expires_in = 3600\<rparr> =
        Inr ''https://portfolio.s3.amazonaws.com/images/x.png?X-Amz-Expires=3600&X-Amz-Signature=ab12''"
    by (simp add: example_world_def example_bucket_name)
  then show ?thesis
    by (rule presigned_url_for_requested_key)
qed

lemma list_images_raises:
  assumes "list_objects_v2 w (s3_client p) (S3_BUCKET_NAME p) = Inl e"
  shows "list_images p w = (HTTPException 500 (''Failed to list images: '' @ str_exn e), w)"
  using assms by (simp add: list_images_def)

text \<open>
  Claim C5. \<^verbatim>\<open>GET /api/list-images\<close> returns the keys of one listing call on the
  configured bucket as it is at the call: the first \<open>max_keys\<close> keys, each of them a key
  of the bucket, and no more when the bucket holds more than one page.
\<close>

theorem list_images_first_page:
  assumes "S3_BUCKET_NAME p = Some b"
    and "buckets w b = Some objs"
    and "s3_fault w ListObjectsV2 = None"
  shows "\<exists>ks. handle p w GET_api_list_images =
                (Returned (PDict [(''images'', PList (map PStr ks))]), w) \<and>
              ks = take (max_keys w) (map fst objs) \<and>
              set ks \<subseteq> fst ` set objs \<and>
              (max_keys w < length objs \<longrightarrow> length ks = max_keys w \<and> length ks < length objs)"
proof -
  have "handle p w GET_api_list_images =
          (Returned (PDict [(''images'', PList (map PStr (take (max_keys w) (map fst objs))))]), w)"
    using assms
    by (simp add: list_images_def list_objects_v2_def Let_def take_map case_prod_beta comp_def)
  moreover have "set (take (max_keys w) (map fst objs)) \<subseteq> fst ` set objs"
    using set_take_subset [of "max_keys w" "map fst objs"] by simp
  ultimately show ?thesis
    by simp
qed

theorem list_images_first_page_witness:
  "max_keys example_world < length
     [(''images/a.png'', \<lparr>obj_body = ''A'', obj_content_type = Some ''image/png''\<rparr>),
      (''images/b.png'', \<lparr>obj_body = ''BB'', obj_content_type = Some ''image/png''\<rparr>),
      (''images/c.png'', \<lparr>obj_body = ''CCC'', obj_content_type = Some ''image/png''\<rparr>)] \<and>
   handle example_process example_world GET_api_list_images =
     (Returned (PDict [(''images'', PList [PStr ''images/a.png'', PStr ''images/b.png''])]),
      example_world)"
proof -
  have s: "s3_fault example_world ListObjectsV2 = None" and m: "max_keys example_world = 2"
    by (simp_all add: example_world_def)
  from list_images_first_page [OF example_bucket_name example_objects s] m show ?thesis
    by (auto simp add: numeral_2_eq_2)
qed

section \<open>Fixed responses and the environment\<close>

text \<open>
  Claim C6. \<^verbatim>\<open>GET /api/debug-env\<close> returns, with status 200 and under no condition, the
  current value of each of the ten variables, the access key, the secret key, the
  database user and the database password among them (\<^verbatim>\<open>null\<close> for an unset one).
\<close>

theorem debug_env_returns_current_values:
  "handle p w GET_api_debug_env =
     (Returned (PDict (map (\<lambda>name. (name, py_opt_str (environ p name)))
        [''AWS_ACCESS_KEY_ID'', ''AWS_SECRET_ACCESS_KEY'', ''AWS_REGION'', ''S3_BUCKET_NAME'',
         ''DB_USER'', ''DB_PASSWORD'', ''DB_NAME'', ''DB_HOST'', ''DB_PORT'',
         ''FRONTEND_DOMAIN''])), w) \<and>
   status_code (serve (fst (handle p w GET_api_debug_env))) = 200"
  by (simp add: debug_env_def getenv_def)

lemma debug_env_example:
  "fst (handle (setenv ''DB_PASSWORD'' ''rotated'' example_process) example_world GET_api_debug_env) =
     Returned (PDict
       [(''AWS_ACCESS_KEY_ID'', PStr ''AKIAEXAMPLE''),
        (''AWS_SECRET_ACCESS_KEY'', PStr ''wJalrEXAMPLEKEY''),
        (''AWS_REGION'', PStr ''eu-west-1''),
        (''S3_BUCKET_NAME'', PStr ''portfolio''),
        (''DB_USER'', PStr ''app''),
        (''DB_PASSWORD'', PStr ''rotated''),
        (''DB_NAME'', PStr ''appdb''),
        (''DB_HOST'', PStr ''db.internal''),
        (''DB_PORT'', PStr ''5432''),
        (''FRONTEND_DOMAIN'', PStr ''http://localhost:3000'')])"
  by (simp add: debug_env_def getenv_def setenv_def example_process_def startup_def
      load_dotenv_def example_environ_def)

text \<open>
  Claim C9. \<^verbatim>\<open>GET /health\<close> answers status 200 and the body \<^verbatim>\<open>{"status": "ok"}\<close>, for
  every process state and every world, and changes nothing.
\<close>

theorem health_check_ok:
  "handle p w GET_health = (JSONResponse (PDict [(''status'', PStr ''ok'')]) 200, w) \<and>
   serve (fst (handle p w GET_health)) =
     \<lparr>status_code = 200, json_body = PDict [(''status'', PStr ''ok'')]\<rparr>"
  by (simp add: health_check_def)

text \<open>
  Claim C8, amended. The client and the bucket name are fixed at startup, and the
  handlers of \<^verbatim>\<open>/health\<close>, \<^verbatim>\<open>/api/hello\<close>, \<^verbatim>\<open>/api/upload\<close>, \<^verbatim>\<open>/api/list-images\<close> and
  \<^verbatim>\<open>/api/generate-presigned-url\<close> give the same result whatever the environment has
  become since. The handlers of \<^verbatim>\<open>/\<close>, \<^verbatim>\<open>/api/data\<close> and \<^verbatim>\<open>/api/debug-env\<close> call
  \<^verbatim>\<open>os.getenv\<close> at each request.
\<close>

theorem handlers_without_getenv_ignore_environment:
  assumes "r \<notin> {GET_root, GET_api_data, GET_api_debug_env}"
  shows "handle (p\<lparr>environ := e\<rparr>) w r = handle p w r"
proof (cases r)
  case (POST_api_upload upload)
  have "upload_file (p\<lparr>environ := e\<rparr>) w upload = upload_file p w upload"
    unfolding upload_file_def
    by (simp cong del: option.case_cong_weak list.case_cong_weak sum.case_cong_weak
        exn.case_cong_weak prod.case_cong_weak let_weak_cong)
  with POST_api_upload show ?thesis
    by simp
qed (use assms in \<open>simp_all add: health_check_def api_hello_def list_images_def
      get_presigned_url_def\<close>)

theorem handlers_without_getenv_ignore_environment_witness:
  "GET_api_list_images \<notin> {GET_root, GET_api_data, GET_api_debug_env} \<and>
   handle (setenv ''S3_BUCKET_NAME'' ''elsewhere'' example_process) example_world GET_api_list_images =
   handle example_process example_world GET_api_list_images"
proof -
  have n: "GET_api_list_images \<notin> {GET_root, GET_api_data, GET_api_debug_env}"
    by simp
  from handlers_without_getenv_ignore_environment [OF n] n show ?thesis
    unfolding setenv_def by blast
qed

text \<open>
  Claim C8 as stated fails: two runs of the same started process that differ only in an
  assignment to \<^verbatim>\<open>FRONTEND_DOMAIN\<close> made after startup get different answers from
  \<^verbatim>\<open>GET /\<close>.
\<close>

theorem root_follows_environment_counterexample:
  "fst (handle (setenv ''FRONTEND_DOMAIN'' ''https://other.example'' example_process)
          example_world GET_root) \<noteq>
   fst (handle example_process example_world GET_root)"
  by (simp add: root_def getenv_def setenv_def example_process_def startup_def
      load_dotenv_def example_environ_def)

text \<open>
  Claim C10. For a filename without a dot the extension is the whole filename: the object
  is handed to the SDK under the key \<^verbatim>\<open>images/<uuid>.<filename>\<close>, and whenever that call
  returns, the handler returns this key; no error is raised for the missing extension.
\<close>

theorem upload_without_dot_keeps_whole_filename:
  assumes "filename file = Some name"
    and "CHR ''.'' \<notin> set name"
    and "upload_fileobj (w\<lparr>rand_pos := Suc (rand_pos w)\<rparr>) (s3_client p) (file_bytes file)
           (S3_BUCKET_NAME p) (''images/'' @ rand_uuid w (rand_pos w) @ ''.'' @ name)
           (content_type file) = Inr w'"
  shows "last (py_split CHR ''.'' name) = name \<and>
         handle p w (POST_api_upload file) =
           (Returned (PDict
              [(''message'', PStr ''File uploaded successfully''),
               (''filename'', PStr (''images/'' @ rand_uuid w (rand_pos w) @ ''.'' @ name)),
               (''file_url'', PStr (''https://'' @ fmt_opt_str (S3_BUCKET_NAME p) @
                                    ''.s3.amazonaws.com/'' @
                                    ''images/'' @ rand_uuid w (rand_pos w) @ ''.'' @ name)),
               (''content_type'', py_opt_str (content_type file)),
               (''size'', py_opt_int (file_size file))]),
            w')"
proof -
  have ext: "last (py_split CHR ''.'' name) = name"
    using assms(2) by (simp add: py_split_no_sep)
  have "upload_fileobj (w\<lparr>rand_pos := Suc (rand_pos w)\<rparr>) (s3_client p) (file_bytes file)
          (S3_BUCKET_NAME p)
          (''images/'' @ rand_uuid w (rand_pos w) @ ''.'' @ last (py_split CHR ''.'' name))
          (content_type file) = Inr w'"
    using assms(3) by (simp only: ext)
  from upload_file_accepted [OF assms(1) this] ext show ?thesis
    by (simp add: Let_def)
qed

theorem upload_without_dot_keeps_whole_filename_witness:
  "CHR ''.'' \<notin> set ''README'' \<and>
   fst (handle example_process example_world (POST_api_upload example_no_extension)) =
     Returned (PDict
       [(''message'', PStr ''File uploaded successfully''),
        (''filename'', PStr ''images/6f1c2a9e-0b7d-4c55-9a3e-2d8f4b1c7e10.README''),
        (''file_url'', PStr ''https://portfolio.s3.amazonaws.com/images/6f1c2a9e-0b7d-4c55-9a3e-2d8f4b1c7e10.README''),
        (''content_type'', PStr ''text/plain''),
        (''size'', PInt 5)])"
proof -
  have f: "filename example_no_extension = Some ''README''"
    by (simp add: example_no_extension_def)
  have d: "CHR ''.'' \<notin> set ''README''"
    by simp
  have s: "s3_fault example_world PutObject = None"
    by (simp add: example_world_def)
  have r: "rand_uuid example_world (rand_pos example_world) = ''6f1c2a9e-0b7d-4c55-9a3e-2d8f4b1c7e10''"
    by (simp add: example_world_def)
  have c: "content_type example_no_extension = Some ''text/plain''"
    "file_size example_no_extension = Some 5"
    by (simp_all add: example_no_extension_def)
  have "\<exists>w'. upload_fileobj (example_world\<lparr>rand_pos := Suc (rand_pos example_world)\<rparr>)
          (s3_client example_process) (file_bytes example_no_extension)
          (S3_BUCKET_NAME example_process)
          (''images/'' @ rand_uuid example_world (rand_pos example_world) @ ''.'' @ ''README'')
          (content_type example_no_extension) = Inr w'"
    using s example_objects
    by (simp add: upload_fileobj_def example_bucket_name c)
  then obtain w' where "upload_fileobj (example_world\<lparr>rand_pos := Suc (rand_pos example_world)\<rparr>)
          (s3_client example_process) (file_bytes example_no_extension)
          (S3_BUCKET_NAME example_process)
          (''images/'' @ rand_uuid example_world (rand_pos example_world) @ ''.'' @ ''README'')
          (content_type example_no_extension) = Inr w'" ..
  from upload_without_dot_keeps_whole_filename [OF f d this] d show ?thesis
    by (simp add: r c example_bucket_name)
qed

end
